theory Spec2Isabelle
  imports Complex_Main
begin

section \<open>RigMonitor: the sensor data generator of main.py\<close>

text \<open>
  The development embeds \<^verbatim>\<open>generate_sensor_data\<close> (main.py, lines 22 to 95) and the
  two lines that every \<^verbatim>\<open>update_*_bar_chart\<close> callback starts with. The function reads
  the clock and the global random generator; both are arguments of the model. Every
  exception the function can raise is a value of \<open>error\<close>, returned as \<open>Inl\<close>.
\<close>

subsection \<open>Exceptions\<close>

datatype error =
    OverflowError
  | OutOfBoundsDatetime
  | ZeroDivisionError
  | UnboundLocalError
  | ValueError

subsection \<open>datetime and timedelta\<close>

text \<open>
  A \<^verbatim>\<open>datetime\<close> is the number of microseconds since \<^verbatim>\<open>datetime.min\<close>
  (0001-01-01 00:00:00), a \<^verbatim>\<open>timedelta\<close> a number of microseconds. Python's integers
  are unbounded, so both are \<open>int\<close>.
\<close>

type_synonym datetime = int
type_synonym timedelta = int

definition us_per_minute :: int where
  "us_per_minute = 60000000"

definition us_per_hour :: int where
  "us_per_hour = 3600000000"

definition us_per_day :: int where
  "us_per_day = 86400000000"

text \<open>\<^verbatim>\<open>datetime.max\<close> is 9999-12-31 23:59:59.999999, the last microsecond of day 3652059.\<close>

definition datetime_max :: datetime where
  "datetime_max = 3652059 * us_per_day - 1"

text \<open>
  \<^verbatim>\<open>datetime.timedelta(hours=hours)\<close>: the value is normalised to days, seconds and
  microseconds, and the constructor raises OverflowError when the day count has a
  magnitude above 999999999.
\<close>

definition timedelta_hours :: "int \<Rightarrow> error + timedelta" where
  "timedelta_hours hours =
     (if \<bar>hours div 24\<bar> > 999999999 then Inl OverflowError
      else Inr (hours * us_per_hour))"

text \<open>
  \<^verbatim>\<open>now - delta\<close>: the difference must be a date of the years 1 to 9999, otherwise
  OverflowError ("date value out of range").
\<close>

definition datetime_sub :: "datetime \<Rightarrow> timedelta \<Rightarrow> error + datetime" where
  "datetime_sub t delta =
     (let r = t - delta
      in if 0 \<le> r \<and> r \<le> datetime_max then Inr r else Inl OverflowError)"

subsection \<open>pandas.date\_range\<close>

text \<open>
  pandas keeps a timestamp as a signed 64-bit count of nanoseconds since 1970-01-01, which
  bounds it to 1677-09-21 .. 2262-04-11. \<open>unix_epoch\<close> is 1970-01-01 on the axis of
  \<open>datetime\<close>.
\<close>

definition unix_epoch :: datetime where
  "unix_epoch = 719162 * us_per_day"

definition int64_max :: int where
  "int64_max = 9223372036854775807"

definition fits_int64 :: "int \<Rightarrow> bool" where
  "fits_int64 x = (- int64_max \<le> x \<and> x \<le> int64_max)"

definition timestamp_ns :: "datetime \<Rightarrow> int" where
  "timestamp_ns t = (t - unix_epoch) * 1000"

text \<open>
  \<^verbatim>\<open>pd.date_range(start, end, freq=f'{interval_minutes}min')\<close>: the instants
  \<open>start\<close>, \<open>start + freq\<close>, \<open>start + 2 * freq\<close>, ... that do not pass \<open>end\<close>. The
  end point belongs to the range only when it lies on that grid. With a positive
  frequency a start after the end gives the empty range; a negative frequency counts
  down from the start in the same way; a zero frequency is a division by zero in the
  count.
\<close>

definition date_range :: "datetime \<Rightarrow> datetime \<Rightarrow> int \<Rightarrow> error + datetime list" where
  "date_range start end interval_minutes =
     (let stride = interval_minutes * us_per_minute
      in if fits_int64 (timestamp_ns start) \<and> fits_int64 (timestamp_ns end) then
           if stride = 0 then Inl ZeroDivisionError
           else Inr (map (\<lambda>k. start + int k * stride)
                         [0 ..< nat ((end - start) div stride + 1)])
         else Inl OutOfBoundsDatetime)"

subsection \<open>The random generator\<close>

text \<open>
  numpy's global generator makes a double of \<open>[0, 1)\<close> from 53 random bits, as that
  integer divided by \<open>2 ^ 53\<close>, and an index below \<open>n\<close> by reducing random bits to the
  range. The state of the generator at a call is given by the raw draws it will deliver:
  \<open>bits53 g k\<close> for the \<open>k\<close>-th double and \<open>raw_index g k\<close> for the \<open>k\<close>-th index.
  Values are reals: the rounding of floating-point arithmetic is not modelled.
\<close>

record rng =
  bits53 :: "nat \<Rightarrow> nat"
  raw_index :: "nat \<Rightarrow> nat"

definition random_sample :: "rng \<Rightarrow> nat \<Rightarrow> real" where
  "random_sample g k = real (bits53 g k mod 2 ^ 53) / 2 ^ 53"

text \<open>\<^verbatim>\<open>np.random.uniform(low, high, n)\<close> is \<open>low + (high - low) * random_sample()\<close>, n times.\<close>

definition random_uniform :: "rng \<Rightarrow> real \<Rightarrow> real \<Rightarrow> nat \<Rightarrow> real list" where
  "random_uniform g low high n =
     map (\<lambda>k. low + (high - low) * random_sample g k) [0 ..< n]"

text \<open>\<^verbatim>\<open>np.random.choice(items, n)\<close>: n entries of \<open>items\<close>, each at a random index.\<close>

definition random_choice :: "rng \<Rightarrow> 'a list \<Rightarrow> nat \<Rightarrow> 'a list" where
  "random_choice g items n =
     map (\<lambda>k. items ! (raw_index g k mod length items)) [0 ..< n]"

subsection \<open>The status expressions\<close>

text \<open>The \<^verbatim>\<open>np.where\<close> expressions of lines 46, 58, 68 and 81, for one value.\<close>

definition corrosion_status :: "real \<Rightarrow> string" where
  "corrosion_status v =
     (if v < 0.1 then ''Good'' else if v < 0.4 then ''Concern'' else ''Malfunction'')"

definition pressure_status :: "real \<Rightarrow> string" where
  "pressure_status v =
     (if v < 80 then ''Good'' else if v < 95 then ''Concern'' else ''Malfunction'')"

definition temperature_status :: "real \<Rightarrow> string" where
  "temperature_status v =
     (if - 20 < v \<and> v < 120 then ''Good''
      else if - 40 < v \<and> v < 140 then ''Concern'' else ''Malfunction'')"

definition acoustic_status :: "real \<Rightarrow> string" where
  "acoustic_status v =
     (let good_min = 60; good_max = 90; concern_min = 50; concern_max = 100
      in if good_min \<le> v \<and> v \<le> good_max then ''Good''
         else if concern_min \<le> v \<and> v \<le> concern_max then ''Concern''
         else ''Malfunction'')"

text \<open>The conditional expression of line 91, in the flow-rate branch.\<close>

definition flow_rate_status :: "real \<Rightarrow> string" where
  "flow_rate_status v =
     (if 100 < v \<and> v < 900 then ''Good''
      else if 50 < v \<and> v < 950 then ''Concern'' else ''Malfunction'')"

subsection \<open>The DataFrame\<close>

text \<open>
  A DataFrame is kept as its columns, as \<^verbatim>\<open>pd.DataFrame({...})\<close> builds it. The column
  \<^verbatim>\<open>Type\<close> exists in the frames of corrosion sensors only. A sensor id is an integer or
  \<^verbatim>\<open>None\<close>.
\<close>

record dataframe =
  Time :: "datetime list"
  Sensor_ID :: "int option list"
  Value :: "real list"
  Status :: "string list"
  Type :: "string list option"

definition columns :: "dataframe \<Rightarrow> string list" where
  "columns df =
     [''Time'', ''Sensor ID'', ''Value'', ''Status'']
       @ (case Type df of None \<Rightarrow> [] | Some _ \<Rightarrow> [''Type''])"

subsection \<open>generate\_sensor\_data\<close>

text \<open>
  Line 42 runs before the branch on \<open>sensor_type\<close>, so its exceptions come first. The
  flow-rate branch evaluates \<^verbatim>\<open>sensor_data.append\<close> with \<^verbatim>\<open>sensor_data\<close> never
  assigned; a type that no branch knows falls through to \<^verbatim>\<open>return sensor_data\<close> in the
  same state. Both are UnboundLocalError.
\<close>

definition generate_sensor_data ::
  "datetime \<Rightarrow> rng \<Rightarrow> string \<Rightarrow> int \<Rightarrow> int \<Rightarrow> int option \<Rightarrow> error + dataframe" where
  "generate_sensor_data now g sensor_type hours interval_minutes sensor_id =
     (case timedelta_hours hours of
        Inl e \<Rightarrow> Inl e
      | Inr delta \<Rightarrow>
     (case datetime_sub now delta of
        Inl e \<Rightarrow> Inl e
      | Inr start \<Rightarrow>
     (case date_range start now interval_minutes of
        Inl e \<Rightarrow> Inl e
      | Inr time_range \<Rightarrow>
         if sensor_type = ''corrosion'' then
           (let values = random_uniform g 0 1 (length time_range);
                status = map corrosion_status values;
                corrosion_types =
                  random_choice g [''Uniform'', ''Pitting'', ''Galvanic'', ''Crevice'']
                    (length time_range)
            in Inr \<lparr>Time = time_range,
                    Sensor_ID = replicate (length time_range) sensor_id,
                    Value = values, Status = status, Type = Some corrosion_types\<rparr>)
         else if sensor_type = ''pressure'' then
           (let values = random_uniform g 0 100 (length time_range);
                status = map pressure_status values
            in Inr \<lparr>Time = time_range,
                    Sensor_ID = replicate (length time_range) sensor_id,
                    Value = values, Status = status, Type = None\<rparr>)
         else if sensor_type = ''temperature'' then
           (let values = random_uniform g (- 50) 150 (length time_range);
                status = map temperature_status values
            in Inr \<lparr>Time = time_range,
                    Sensor_ID = replicate (length time_range) sensor_id,
                    Value = values, Status = status, Type = None\<rparr>)
         else if sensor_type = ''acoustic'' then
           (let min_value = 40; max_value = 120;
                values = random_uniform g min_value max_value (length time_range);
                status = map acoustic_status values
            in Inr \<lparr>Time = time_range,
                    Sensor_ID = replicate (length time_range) sensor_id,
                    Value = values, Status = status, Type = None\<rparr>)
         else if sensor_type = ''flow_rate'' then Inl UnboundLocalError
         else Inl UnboundLocalError)))"

subsection \<open>The current values behind the bar charts\<close>

text \<open>
  Each \<^verbatim>\<open>update_*_bar_chart\<close> callback starts with the same two lines (140 and 141,
  207 and 208, 276 and 277, 333 and 334), which differ in the category only:
  \<^verbatim>\<open>
  df = pd.concat([generate_sensor_data(c, hours=1, interval_minutes=10, sensor_id=i)
                  for i in range(10)])
  current_values = df.groupby('Sensor ID').last().reset_index()
  \<close>
  The list comprehension stops at the first call that raises.
\<close>

fun collect :: "(error + 'a) list \<Rightarrow> error + 'a list" where
  "collect [] = Inr []"
| "collect (r # rs) =
     (case r of
        Inl e \<Rightarrow> Inl e
      | Inr x \<Rightarrow> (case collect rs of Inl e \<Rightarrow> Inl e | Inr xs \<Rightarrow> Inr (x # xs)))"

text \<open>
  \<^verbatim>\<open>pd.concat\<close> puts the rows of the frames one after another and raises ValueError on
  an empty list. A frame without the column \<^verbatim>\<open>Type\<close> gets missing values there when
  another frame has it.
\<close>

definition pd_concat :: "dataframe list \<Rightarrow> error + dataframe" where
  "pd_concat frames =
     (if frames = [] then Inl ValueError
      else Inr \<lparr>Time = concat (map Time frames),
                Sensor_ID = concat (map Sensor_ID frames),
                Value = concat (map Value frames),
                Status = concat (map Status frames),
                Type =
                  (if list_all (\<lambda>d. Type d = None) frames then None
                   else Some (concat (map (\<lambda>d. case Type d of
                                                  Some ts \<Rightarrow> ts
                                                | None \<Rightarrow> replicate (length (Time d)) ''nan'')
                                          frames)))\<rparr>)"

text \<open>
  \<^verbatim>\<open>df.groupby('Sensor ID').last().reset_index()\<close>: one row for each sensor id of the
  frame, the ids in ascending order (rows whose id is \<^verbatim>\<open>None\<close> belong to no group), and
  in each column the last value of the group. \<^verbatim>\<open>last\<close> skips missing values; the
  generator writes none, so the values are those of the last row of the group.
\<close>

definition groupby_last :: "dataframe \<Rightarrow> dataframe" where
  "groupby_last df =
     (let ids = Sensor_ID df;
          keys = sort (remdups (List.map_filter (\<lambda>x. x) ids));
          rows = map (\<lambda>key. last (filter (\<lambda>j. ids ! j = Some key) [0 ..< length ids])) keys
      in \<lparr>Time = map (nth (Time df)) rows,
          Sensor_ID = map Some keys,
          Value = map (nth (Value df)) rows,
          Status = map (nth (Status df)) rows,
          Type = map_option (\<lambda>ts. map (nth ts) rows) (Type df)\<rparr>)"

text \<open>
  The \<open>i\<close>-th call of the comprehension reads the clock as \<open>clock i\<close> and finds the
  random generator in the state \<open>gens i\<close>.
\<close>

definition current_values ::
  "(nat \<Rightarrow> datetime) \<Rightarrow> (nat \<Rightarrow> rng) \<Rightarrow> string \<Rightarrow> error + dataframe" where
  "current_values clock gens sensor_type =
     (case collect (map (\<lambda>i. generate_sensor_data (clock i) (gens i) sensor_type 1 10
                                 (Some (int i)))
                        [0 ..< 10]) of
        Inl e \<Rightarrow> Inl e
      | Inr frames \<Rightarrow>
          (case pd_concat frames of
             Inl e \<Rightarrow> Inl e
           | Inr df \<Rightarrow> Inr (groupby_last df)))"

text \<open>The frame \<^verbatim>\<open>current_values\<close> of the two callbacks; the figure drawn from it is not modelled.\<close>

definition update_corrosion_bar_chart ::
  "(nat \<Rightarrow> datetime) \<Rightarrow> (nat \<Rightarrow> rng) \<Rightarrow> error + dataframe" where
  "update_corrosion_bar_chart clock gens = current_values clock gens ''corrosion''"

definition update_temperature_bar_chart ::
  "(nat \<Rightarrow> datetime) \<Rightarrow> (nat \<Rightarrow> rng) \<Rightarrow> error + dataframe" where
  "update_temperature_bar_chart clock gens = current_values clock gens ''temperature''"

subsection \<open>The threshold table of the specification\<close>

text \<open>
  The specification names five categories and gives, for each, the band of values of
  every status. The three predicates below follow that table row by row; \<open>otherwise\<close>
  in the table is "neither Good nor Concern".
\<close>

datatype category = Corrosion | Pressure | Temperature | Acoustic | Flow_rate

fun category_name :: "category \<Rightarrow> string" where
  "category_name Corrosion = ''corrosion''"
| "category_name Pressure = ''pressure''"
| "category_name Temperature = ''temperature''"
| "category_name Acoustic = ''acoustic''"
| "category_name Flow_rate = ''flow_rate''"

fun table_good :: "category \<Rightarrow> real \<Rightarrow> bool" where
  "table_good Corrosion v = (v < 0.1)"
| "table_good Pressure v = (v < 80)"
| "table_good Temperature v = (- 20 < v \<and> v < 120)"
| "table_good Acoustic v = (60 \<le> v \<and> v \<le> 90)"
| "table_good Flow_rate v = (100 < v \<and> v < 900)"

fun table_concern :: "category \<Rightarrow> real \<Rightarrow> bool" where
  "table_concern Corrosion v = (0.1 \<le> v \<and> v < 0.4)"
| "table_concern Pressure v = (80 \<le> v \<and> v < 95)"
| "table_concern Temperature v = ((- 40 < v \<and> v < 140) \<and> \<not> table_good Temperature v)"
| "table_concern Acoustic v = ((50 \<le> v \<and> v \<le> 100) \<and> \<not> table_good Acoustic v)"
| "table_concern Flow_rate v = ((50 < v \<and> v < 950) \<and> \<not> table_good Flow_rate v)"

fun table_malfunction :: "category \<Rightarrow> real \<Rightarrow> bool" where
  "table_malfunction Corrosion v = (0.4 \<le> v)"
| "table_malfunction Pressure v = (95 \<le> v)"
| "table_malfunction c v = (\<not> table_good c v \<and> \<not> table_concern c v)"

definition table_status :: "category \<Rightarrow> real \<Rightarrow> string" where
  "table_status c v =
     (if table_good c v then ''Good''
      else if table_concern c v then ''Concern'' else ''Malfunction'')"

text \<open>The status expression that the source applies in the branch of a category.\<close>

fun status_expression :: "category \<Rightarrow> real \<Rightarrow> string" where
  "status_expression Corrosion = corrosion_status"
| "status_expression Pressure = pressure_status"
| "status_expression Temperature = temperature_status"
| "status_expression Acoustic = acoustic_status"
| "status_expression Flow_rate = flow_rate_status"

subsection \<open>Example inputs\<close>

text \<open>
  A clock reading (2023-03-25 12:00:00) and a state of the random generator whose
  \<open>k\<close>-th double is \<open>k / 8\<close> (for \<open>k < 8\<close>) and whose \<open>k\<close>-th index is \<open>k\<close>.
\<close>

definition clock_example :: datetime where
  "clock_example = 63815342400000000"

definition rng_example :: rng where
  "rng_example = \<lparr>bits53 = (\<lambda>k. k * 2 ^ 50), raw_index = (\<lambda>k. k)\<rparr>"

text \<open>A clock that advances by one millisecond from one call to the next.\<close>

definition ticking_clock :: "nat \<Rightarrow> datetime" where
  "ticking_clock i = clock_example + int i * 1000"

definition same_rng :: "nat \<Rightarrow> rng" where
  "same_rng i = rng_example"

section \<open>Properties\<close>

subsection \<open>Auxiliary facts\<close>

lemmas units =
  us_per_hour_def us_per_minute_def us_per_day_def datetime_max_def unix_epoch_def
  int64_max_def fits_int64_def timestamp_ns_def

lemmas generate_defs =
  generate_sensor_data_def timedelta_hours_def datetime_sub_def date_range_def Let_def

lemmas example_defs =
  clock_example_def rng_example_def random_uniform_def random_sample_def random_choice_def

lemma window_div:
  "hours * us_per_hour div (i * us_per_minute) = hours * 60 div i"
proof -
  have "hours * 3600000000 = (hours * 60) * (60000000::int)" by simp
  then have "hours * 3600000000 div (i * 60000000) = (hours * 60) * 60000000 div (i * 60000000)"
    by simp
  also have "\<dots> = hours * 60 div i" by (rule div_mult_mult2) simp
  finally show ?thesis by (simp add: us_per_hour_def us_per_minute_def)
qed

lemma last_grid_point:
  fixes hours i :: int
  shows "now - hours * us_per_hour + (hours * 60 div i) * (i * us_per_minute)
         = now - (hours * 60 mod i) * us_per_minute"
proof -
  have "hours * 60 = i * (hours * 60 div i) + hours * 60 mod i" by simp
  then have "hours * 60 * 60000000 = (i * (hours * 60 div i) + hours * 60 mod i) * 60000000"
    by simp
  then have "hours * 3600000000
             = (hours * 60 div i) * (i * 60000000) + (hours * 60 mod i) * 60000000"
    by (simp only: distrib_right mult.assoc mult.commute [of i])
  then show ?thesis by (simp add: us_per_hour_def us_per_minute_def)
qed

lemma date_range_Inr:
  "date_range start end' i = Inr tr \<Longrightarrow>
     tr = map (\<lambda>k. start + int k * (i * us_per_minute))
            [0 ..< nat ((end' - start) div (i * us_per_minute) + 1)]"
  by (auto simp: date_range_def Let_def split: if_splits)

text \<open>What a returned frame looks like, whatever the branch that built it.\<close>

lemma generate_sensor_data_Inr:
  assumes "generate_sensor_data now g sensor_type hours interval_minutes sensor_id = Inr df"
  shows "\<exists>tr. date_range (now - hours * us_per_hour) now interval_minutes = Inr tr
           \<and> Time df = tr
           \<and> Sensor_ID df = replicate (length tr) sensor_id
           \<and> length (Value df) = length tr
           \<and> length (Status df) = length tr
           \<and> sensor_type \<in> {''corrosion'', ''pressure'', ''temperature'', ''acoustic''}"
  using assms
  by (auto simp: generate_sensor_data_def timedelta_hours_def datetime_sub_def Let_def
                 random_uniform_def
           split: sum.splits if_splits)

lemma generate_time:
  assumes "generate_sensor_data now g sensor_type hours interval_minutes sensor_id = Inr df"
  shows "Time df =
           map (\<lambda>k. now - hours * us_per_hour + int k * (interval_minutes * us_per_minute))
               [0 ..< nat (hours * 60 div interval_minutes + 1)]"
  using generate_sensor_data_Inr [OF assms]
    date_range_Inr [of "now - hours * us_per_hour" now interval_minutes]
  by (auto simp: window_div)

lemma generate_values:
  assumes "generate_sensor_data now g sensor_type hours interval_minutes sensor_id = Inr df"
  shows "\<exists>n. (sensor_type = ''corrosion'' \<and> Value df = random_uniform g 0 1 n)
           \<or> (sensor_type = ''pressure'' \<and> Value df = random_uniform g 0 100 n)
           \<or> (sensor_type = ''temperature'' \<and> Value df = random_uniform g (- 50) 150 n)
           \<or> (sensor_type = ''acoustic'' \<and> Value df = random_uniform g 40 120 n)"
  using assms
  by (auto simp: generate_sensor_data_def Let_def split: sum.splits if_splits)

lemma generate_status:
  assumes "generate_sensor_data now g (category_name c) hours interval_minutes sensor_id = Inr df"
  shows "Status df = map (status_expression c) (Value df)"
  using assms
  by (cases c) (auto simp: generate_sensor_data_def Let_def split: sum.splits if_splits)

lemma generate_type:
  assumes "generate_sensor_data now g sensor_type hours interval_minutes sensor_id = Inr df"
  shows "(sensor_type = ''corrosion'' \<and>
            Type df = Some (random_choice g [''Uniform'', ''Pitting'', ''Galvanic'', ''Crevice'']
                              (length (Time df))))
       \<or> (sensor_type \<noteq> ''corrosion'' \<and> Type df = None)"
  using assms
  by (auto simp: generate_sensor_data_def Let_def split: sum.splits if_splits)

text \<open>The random draws.\<close>

lemma random_sample_unit: "0 \<le> random_sample g k \<and> random_sample g k < 1"
proof -
  have "bits53 g k mod 2 ^ 53 < 2 ^ 53" by simp
  then have "real (bits53 g k mod 2 ^ 53) < 2 ^ 53"
    by (metis of_nat_less_iff of_nat_numeral of_nat_power)
  then show ?thesis by (simp add: random_sample_def)
qed

lemma random_uniform_bounds:
  assumes "low \<le> high" and "v \<in> set (random_uniform g low high n)"
  shows "low \<le> v \<and> v \<le> high"
proof -
  from assms(2) obtain k where v: "v = low + (high - low) * random_sample g k"
    by (auto simp: random_uniform_def)
  have u: "0 \<le> random_sample g k" "random_sample g k \<le> 1"
    using random_sample_unit [of g k] by simp_all
  have "0 \<le> (high - low) * random_sample g k"
    using assms(1) u(1) by simp
  moreover have "(high - low) * random_sample g k \<le> (high - low) * 1"
    using assms(1) u(2) by (intro mult_left_mono) simp_all
  ultimately show ?thesis using v by simp
qed

lemma random_choice_subset:
  "items \<noteq> [] \<Longrightarrow> set (random_choice g items n) \<subseteq> set items"
  by (auto simp: random_choice_def)

text \<open>The status expressions agree with the table of the specification.\<close>

lemma status_expression_table: "status_expression c v = table_status c v"
  by (cases c)
     (auto simp: table_status_def corrosion_status_def pressure_status_def
                 temperature_status_def acoustic_status_def flow_rate_status_def Let_def)

text \<open>Lists: the largest element of an increasing list, blocks of a concatenation.\<close>

lemma sorted_last_Max:
  fixes xs :: "int list"
  assumes "sorted_wrt (<) xs" and "xs \<noteq> []"
  shows "Max (set xs) = last xs"
proof (rule Max_eqI)
  show "finite (set xs)" by simp
  show "last xs \<in> set xs" using assms(2) by simp
  fix y assume "y \<in> set xs"
  then obtain k where k: "k < length xs" "y = xs ! k" by (auto simp: in_set_conv_nth)
  show "y \<le> last xs"
  proof (cases "k = length xs - 1")
    case True
    then show ?thesis using k assms(2) by (simp add: last_conv_nth)
  next
    case False
    then have "k < length xs - 1" using k by simp
    then have "xs ! k < xs ! (length xs - 1)"
      using assms(1) k by (simp add: sorted_wrt_iff_nth_less)
    then show ?thesis using k assms(2) by (simp add: last_conv_nth)
  qed
qed

lemma nth_concat_blocks:
  "\<forall>xs \<in> set xss. length xs = m \<Longrightarrow> i < length xss \<Longrightarrow> j < m \<Longrightarrow>
     concat xss ! (i * m + j) = xss ! i ! j"
proof (induction xss arbitrary: i)
  case Nil
  then show ?case by simp
next
  case (Cons xs xss)
  show ?case
  proof (cases i)
    case 0
    then show ?thesis using Cons.prems by (simp add: nth_append)
  next
    case (Suc i')
    then have "concat (xs # xss) ! (i * m + j) = concat xss ! (i' * m + j)"
      using Cons.prems by (simp add: nth_append)
    then show ?thesis using Cons.IH [of i'] Cons.prems Suc by simp
  qed
qed

lemma last_of_block:
  assumes "\<forall>i < length frames. length (f (frames ! i)) = 7" and "i < length frames"
  shows "concat (map f frames) ! (i * 7 + 6) = last (f (frames ! i))"
proof -
  have "concat (map f frames) ! (i * 7 + 6) = map f frames ! i ! 6"
    using assms by (intro nth_concat_blocks) (auto simp: in_set_conv_nth)
  moreover have "f (frames ! i) \<noteq> []" "length (f (frames ! i)) - 1 = 6"
    using assms by auto
  ultimately show ?thesis using assms(2) by (simp add: last_conv_nth)
qed

text \<open>The comprehension of the callbacks and the frames of a one-hour window.\<close>

lemma collect_map_Inr:
  "collect (map f xs) = Inr ys \<Longrightarrow>
     length ys = length xs \<and> (\<forall>i < length xs. f (xs ! i) = Inr (ys ! i))"
proof (induction xs arbitrary: ys)
  case Nil
  then show ?case by simp
next
  case (Cons x xs)
  from Cons.prems obtain y ys' where
    y: "f x = Inr y" and ys': "collect (map f xs) = Inr ys'" and ys: "ys = y # ys'"
    by (auto split: sum.splits)
  from Cons.IH [OF ys'] y ys show ?case
    by (auto simp: nth_Cons split: nat.splits)
qed

lemma collect_map_total:
  "(\<And>x. x \<in> set xs \<Longrightarrow> \<exists>y. f x = Inr y) \<Longrightarrow> \<exists>ys. collect (map f xs) = Inr ys"
proof (induction xs)
  case Nil
  then show ?case by simp
next
  case (Cons x xs)
  from Cons.prems [of x] obtain y where y: "f x = Inr y" by auto
  from Cons.IH Cons.prems obtain ys where "collect (map f xs) = Inr ys" by auto
  with y show ?case by simp
qed

lemma current_values_total:
  assumes "\<And>i. i < 10 \<Longrightarrow>
             \<exists>df. generate_sensor_data (clock i) (gens i) sensor_type 1 10 (Some (int i)) = Inr df"
  shows "\<exists>cv. current_values clock gens sensor_type = Inr cv"
proof -
  let ?call = "\<lambda>i. generate_sensor_data (clock i) (gens i) sensor_type 1 10 (Some (int i))"
  have "\<exists>frames. collect (map ?call [0 ..< 10]) = Inr frames"
    using assms by (intro collect_map_total) simp
  then obtain frames where fr: "collect (map ?call [0 ..< 10]) = Inr frames" ..
  from collect_map_Inr [OF fr] have "frames \<noteq> []" by auto
  then show ?thesis using fr by (simp add: current_values_def pd_concat_def)
qed

lemma hourly_frame:
  assumes gen: "generate_sensor_data now g sensor_type 1 10 sensor_id = Inr df"
  shows "length (Time df) = 7 \<and> length (Value df) = 7 \<and> length (Status df) = 7
       \<and> Sensor_ID df = replicate 7 sensor_id
       \<and> (\<forall>ts. Type df = Some ts \<longrightarrow> length ts = 7)
       \<and> last (Time df) = now \<and> Max (set (Time df)) = now"
proof -
  have T: "Time df = map (\<lambda>k. now - us_per_hour + int k * (10 * us_per_minute)) [0 ..< 7]"
    using generate_time [OF gen] by simp
  then have len: "length (Time df) = 7" by simp
  have cols: "length (Value df) = 7" "length (Status df) = 7"
    "Sensor_ID df = replicate 7 sensor_id"
    using generate_sensor_data_Inr [OF gen] len by auto
  have ty: "\<forall>ts. Type df = Some ts \<longrightarrow> length ts = 7"
    using generate_type [OF gen] len by (auto simp: random_choice_def)
  have lst: "last (Time df) = now"
    unfolding T by (simp add: upt_rec units)
  have "sorted_wrt (<) (Time df)"
    unfolding T by (simp add: upt_rec units)
  then have "Max (set (Time df)) = last (Time df)"
    using len by (intro sorted_last_Max) auto
  with len cols ty lst show ?thesis by simp
qed

lemma keys_eval:
  "sort (remdups (List.map_filter (\<lambda>x. x)
      (concat (map (\<lambda>i. replicate 7 (Some (int i))) [0 ..< 10]))))
   = map int [0 ..< 10]"
  by code_simp

lemma rows_eval:
  "map (\<lambda>key. last (filter
          (\<lambda>j. concat (map (\<lambda>i. replicate 7 (Some (int i))) [0 ..< 10]) ! j = Some key)
          [0 ..< length (concat (map (\<lambda>i. replicate 7 (Some (int i))) [0 ..< 10]))]))
       (map int [0 ..< 10])
   = map (\<lambda>i. i * 7 + 6) [0 ..< 10]"
  by code_simp

subsection \<open>The time range of a Series\<close>

text \<open>
  C1, as stated, at a concrete input. The claim has the last timestamp equal to \<open>now\<close>
  for every interval. With one hour and an interval of seven minutes the range holds
  nine readings, \<open>floor (60 / 7) + 1\<close>, and ends four minutes before \<open>now\<close>:
  \<open>now\<close> is not on the grid that starts at \<open>now - 1 h\<close>.
\<close>

theorem last_timestamp_counterexample:
  "map_sum id (last \<circ> Time)
     (generate_sensor_data clock_example rng_example ''pressure'' 1 7 (Some 3))
     = Inr (clock_example - 4 * us_per_minute)
   \<and> clock_example - 4 * us_per_minute \<noteq> clock_example"
  by (simp add: generate_defs units example_defs upt_rec)

text \<open>
  C1, amended. For a duration of \<open>H \<ge> 0\<close> hours and an interval of \<open>I \<ge> 1\<close> minutes,
  a returned Series has exactly \<open>floor (H * 60 / I) + 1\<close> readings in every column; its
  \<open>k\<close>-th timestamp is \<open>now - H h + k * I min\<close>, so the timestamps increase strictly and
  are \<open>I\<close> minutes apart; the first is \<open>now - H h\<close>; the last is
  \<open>now - ((H * 60) mod I) min\<close>, which is \<open>now\<close> exactly when \<open>I\<close> divides \<open>H * 60\<close>.
\<close>

theorem generate_time_range:
  assumes gen: "generate_sensor_data now g sensor_type hours interval_minutes sensor_id = Inr df"
    and h: "0 \<le> hours" and i: "1 \<le> interval_minutes"
  shows "length (Time df) = nat (hours * 60 div interval_minutes) + 1
       \<and> length (Sensor_ID df) = length (Time df)
       \<and> length (Value df) = length (Time df)
       \<and> length (Status df) = length (Time df)
       \<and> (\<forall>k < length (Time df).
            Time df ! k = now - hours * us_per_hour + int k * (interval_minutes * us_per_minute))
       \<and> sorted_wrt (<) (Time df)
       \<and> hd (Time df) = now - hours * us_per_hour
       \<and> last (Time df) = now - (hours * 60 mod interval_minutes) * us_per_minute
       \<and> (last (Time df) = now \<longleftrightarrow> interval_minutes dvd hours * 60)"
proof -
  let ?q = "hours * 60 div interval_minutes"
  let ?f = "\<lambda>k. now - hours * us_per_hour + int k * (interval_minutes * us_per_minute)"
  have q: "0 \<le> ?q" using h i by (simp add: pos_imp_zdiv_nonneg_iff)
  then have n: "nat (?q + 1) = Suc (nat ?q)" by simp
  have T: "Time df = map ?f [0 ..< Suc (nat ?q)]"
    using generate_time [OF gen] n by simp
  have len: "length (Time df) = nat ?q + 1" using T by simp
  have cols: "length (Sensor_ID df) = length (Time df)" "length (Value df) = length (Time df)"
    "length (Status df) = length (Time df)"
    using generate_sensor_data_Inr [OF gen] by auto
  have nth: "\<forall>k < length (Time df). Time df ! k = ?f k"
    unfolding T by (simp del: upt_Suc)
  have stride: "0 < interval_minutes * us_per_minute"
    using i by (simp add: us_per_minute_def)
  have incr: "sorted_wrt (<) (Time df)"
    unfolding sorted_wrt_iff_nth_less using nth stride by (simp add: mult_strict_right_mono)
  have first: "hd (Time df) = now - hours * us_per_hour"
    unfolding T by (simp add: hd_map del: upt_Suc)
  have "last (Time df) = ?f (nat ?q)" unfolding T by simp
  also have "\<dots> = now - (hours * 60 mod interval_minutes) * us_per_minute"
    using q last_grid_point [of now hours interval_minutes] by simp
  finally have lst: "last (Time df) = now - (hours * 60 mod interval_minutes) * us_per_minute" .
  have "(last (Time df) = now) = (hours * 60 mod interval_minutes = 0)"
    unfolding lst by (simp add: us_per_minute_def)
  then have dv: "(last (Time df) = now) = (interval_minutes dvd hours * 60)"
    by (simp add: dvd_eq_mod_eq_0)
  from len cols nth incr first lst dv show ?thesis by blast
qed

text \<open>The amended C1 at one hour and seven minutes: nine readings, the last at \<open>now - 4 min\<close>.\<close>

theorem generate_time_range_witness:
  "\<exists>df. generate_sensor_data clock_example rng_example ''pressure'' 1 7 (Some 3) = Inr df
        \<and> length (Time df) = 9
        \<and> sorted_wrt (<) (Time df)
        \<and> hd (Time df) = clock_example - us_per_hour
        \<and> last (Time df) = clock_example - 4 * us_per_minute
        \<and> last (Time df) \<noteq> clock_example"
proof -
  obtain df where
    e: "generate_sensor_data clock_example rng_example ''pressure'' 1 7 (Some 3) = Inr df"
    by (simp add: generate_defs units clock_example_def)
  have h: "(0::int) \<le> 1" and i: "(1::int) \<le> 7" by simp_all
  from generate_time_range [OF e h i] e show ?thesis by simp
qed

subsection \<open>The status bands\<close>

text \<open>
  C2. For every category and every value, the status expression of the source returns
  exactly one of Good, Concern and Malfunction, and it returns each of them exactly on
  the band that the threshold table gives for it; the three bands of a category cover
  every value and no two of them overlap.
\<close>

theorem status_bands:
  "status_expression c v \<in> {''Good'', ''Concern'', ''Malfunction''}
   \<and> (status_expression c v = ''Good'') = table_good c v
   \<and> (status_expression c v = ''Concern'') = table_concern c v
   \<and> (status_expression c v = ''Malfunction'') = table_malfunction c v
   \<and> (table_good c v \<or> table_concern c v \<or> table_malfunction c v)
   \<and> \<not> (table_good c v \<and> table_concern c v)
   \<and> \<not> (table_good c v \<and> table_malfunction c v)
   \<and> \<not> (table_concern c v \<and> table_malfunction c v)"
  by (cases c)
     (auto simp: corrosion_status_def pressure_status_def temperature_status_def
                 acoustic_status_def flow_rate_status_def Let_def)

text \<open>C2 at the temperature 130, in the Concern band \<open>(-40, 140)\<close> without \<open>(-20, 120)\<close>.\<close>

theorem status_bands_witness:
  "status_expression Temperature 130 = ''Concern''
   \<and> table_concern Temperature 130
   \<and> \<not> table_good Temperature 130
   \<and> \<not> table_malfunction Temperature 130"
  using status_bands [of Temperature 130] by simp

subsection \<open>Categories that produce no Series\<close>

text \<open>
  C3, evaluated at the category \<^verbatim>\<open>vibration\<close>. The docstring promises ValueError for an
  invalid sensor type; the function has no branch for it and ends in UnboundLocalError
  at \<^verbatim>\<open>return sensor_data\<close>.
\<close>

theorem unknown_category_unbound_local:
  "generate_sensor_data clock_example rng_example ''vibration'' 24 10 None
     = Inl UnboundLocalError
   \<and> UnboundLocalError \<noteq> ValueError"
  by (simp add: generate_defs units clock_example_def)

text \<open>
  C4. A call with the category \<^verbatim>\<open>flow_rate\<close> never returns a Series, whatever the hours
  and the interval are: it ends in an exception before any reading is produced.
\<close>

theorem flow_rate_never_returns:
  "\<exists>e. generate_sensor_data now g ''flow_rate'' hours interval_minutes sensor_id = Inl e"
  by (simp add: generate_sensor_data_def split: sum.split)

text \<open>C4 at the default arguments: the exception is the UnboundLocalError of line 92.\<close>

theorem flow_rate_never_returns_witness:
  "generate_sensor_data clock_example rng_example ''flow_rate'' 24 10 None
     = Inl UnboundLocalError"
  using flow_rate_never_returns [of clock_example rng_example 24 10 None]
  by (simp add: generate_defs units clock_example_def)

subsection \<open>Status, values, tags and sensor ids of a Series\<close>

text \<open>
  C5. The Status column of a returned Series is the threshold table applied to the Value
  column, reading by reading. Hence two readings of one category with equal values have
  equal status, also when they come from different calls: at other times, other
  positions, with other sensor ids and other random draws.
\<close>

theorem status_function_of_value:
  assumes "generate_sensor_data now g (category_name c) hours interval_minutes sensor_id
             = Inr df"
    and "generate_sensor_data now' g' (category_name c) hours' interval_minutes' sensor_id'
             = Inr df'"
  shows "Status df = map (table_status c) (Value df)
       \<and> (\<forall>j < length (Value df). \<forall>k < length (Value df').
            Value df ! j = Value df' ! k \<longrightarrow> Status df ! j = Status df' ! k)"
proof -
  have s: "Status df = map (table_status c) (Value df)"
    using generate_status [OF assms(1)] status_expression_table by (simp cong: map_cong)
  have s': "Status df' = map (table_status c) (Value df')"
    using generate_status [OF assms(2)] status_expression_table by (simp cong: map_cong)
  show ?thesis using s s' by simp
qed

text \<open>
  C5 at two pressure calls that differ in clock, window and sensor id: both start with
  the value 0 and give it the same status.
\<close>

theorem status_function_of_value_witness:
  "\<exists>df df'.
     generate_sensor_data clock_example rng_example (category_name Pressure) 1 10 (Some 3)
       = Inr df
     \<and> generate_sensor_data (ticking_clock 5) rng_example (category_name Pressure) 0 10 None
       = Inr df'
     \<and> Value df ! 0 = Value df' ! 0
     \<and> Status df ! 0 = Status df' ! 0
     \<and> Status df = map (table_status Pressure) (Value df)"
proof -
  obtain df where
    e: "generate_sensor_data clock_example rng_example (category_name Pressure) 1 10 (Some 3)
          = Inr df"
    by (simp add: generate_defs units clock_example_def)
  obtain df' where
    e': "generate_sensor_data (ticking_clock 5) rng_example (category_name Pressure) 0 10 None
           = Inr df'"
    by (simp add: generate_defs units clock_example_def ticking_clock_def)
  have v: "Value df = [0, 25 / 2, 25, 75 / 2, 50, 125 / 2, 75]"
    using e by (auto simp add: generate_defs units example_defs upt_rec)
  have v': "Value df' = [0]"
    using e' by (auto simp add: generate_defs units example_defs ticking_clock_def upt_rec)
  from status_function_of_value [OF e e'] v v' e e' show ?thesis by auto
qed

text \<open>
  C6. Every value of a returned Series lies in the range of its category: corrosion in
  \<open>[0, 1]\<close>, pressure in \<open>[0, 100]\<close>, temperature in \<open>[-50, 150]\<close>, acoustic in
  \<open>[40, 120]\<close>.
\<close>

theorem values_in_range:
  assumes "generate_sensor_data now g sensor_type hours interval_minutes sensor_id = Inr df"
  shows "\<forall>v \<in> set (Value df).
           (sensor_type = ''corrosion'' \<longrightarrow> 0 \<le> v \<and> v \<le> 1)
         \<and> (sensor_type = ''pressure'' \<longrightarrow> 0 \<le> v \<and> v \<le> 100)
         \<and> (sensor_type = ''temperature'' \<longrightarrow> - 50 \<le> v \<and> v \<le> 150)
         \<and> (sensor_type = ''acoustic'' \<longrightarrow> 40 \<le> v \<and> v \<le> 120)"
proof
  fix v assume "v \<in> set (Value df)"
  with generate_values [OF assms]
    random_uniform_bounds [of 0 1 v g] random_uniform_bounds [of 0 100 v g]
    random_uniform_bounds [of "- 50" 150 v g] random_uniform_bounds [of 40 120 v g]
  show "(sensor_type = ''corrosion'' \<longrightarrow> 0 \<le> v \<and> v \<le> 1)
         \<and> (sensor_type = ''pressure'' \<longrightarrow> 0 \<le> v \<and> v \<le> 100)
         \<and> (sensor_type = ''temperature'' \<longrightarrow> - 50 \<le> v \<and> v \<le> 150)
         \<and> (sensor_type = ''acoustic'' \<longrightarrow> 40 \<le> v \<and> v \<le> 120)"
    by auto
qed

text \<open>C6 at the example of the specification: pressure, one hour, ten minutes, sensor 3.\<close>

theorem values_in_range_witness:
  "\<exists>df. generate_sensor_data clock_example rng_example ''pressure'' 1 10 (Some 3) = Inr df
        \<and> length (Value df) = 7
        \<and> (\<forall>v \<in> set (Value df). 0 \<le> v \<and> v \<le> 100)"
proof -
  obtain df where
    e: "generate_sensor_data clock_example rng_example ''pressure'' 1 10 (Some 3) = Inr df"
    by (simp add: generate_defs units clock_example_def)
  have "length (Value df) = 7"
    using e by (auto simp add: generate_defs units clock_example_def random_uniform_def)
  with values_in_range [OF e] e show ?thesis by simp
qed

text \<open>
  C7. A returned Series has the column Type exactly when its category is corrosion; the
  column then holds one tag for each reading, each of them Uniform, Pitting, Galvanic or
  Crevice. The Series of the other categories have the columns Time, Sensor ID, Value
  and Status and no other.
\<close>

theorem type_column:
  assumes "generate_sensor_data now g sensor_type hours interval_minutes sensor_id = Inr df"
  shows "(Type df \<noteq> None \<longleftrightarrow> sensor_type = ''corrosion'')
       \<and> (\<forall>tags. Type df = Some tags \<longrightarrow>
             length tags = length (Time df)
             \<and> set tags \<subseteq> {''Uniform'', ''Pitting'', ''Galvanic'', ''Crevice''})
       \<and> (sensor_type \<noteq> ''corrosion'' \<longrightarrow>
             columns df = [''Time'', ''Sensor ID'', ''Value'', ''Status''])
       \<and> (sensor_type = ''corrosion'' \<longrightarrow>
             columns df = [''Time'', ''Sensor ID'', ''Value'', ''Status'', ''Type''])"
proof -
  let ?items = "[''Uniform'', ''Pitting'', ''Galvanic'', ''Crevice'']"
  have sub: "set (random_choice g ?items n)
               \<subseteq> {''Uniform'', ''Pitting'', ''Galvanic'', ''Crevice''}" for n
    using random_choice_subset [of ?items g n] by simp
  have len: "length (random_choice g ?items n) = n" for n
    by (simp add: random_choice_def)
  from generate_type [OF assms] show ?thesis
  proof
    assume "sensor_type = ''corrosion'' \<and>
            Type df = Some (random_choice g ?items (length (Time df)))"
    then show ?thesis using sub [of "length (Time df)"] len [of "length (Time df)"]
      by (simp add: columns_def)
  next
    assume "sensor_type \<noteq> ''corrosion'' \<and> Type df = None"
    then show ?thesis by (simp add: columns_def)
  qed
qed

text \<open>C7 at a corrosion Series of one hour: seven tags, and the fifth column.\<close>

theorem type_column_witness:
  "\<exists>df. generate_sensor_data clock_example rng_example ''corrosion'' 1 10 (Some 3) = Inr df
        \<and> Type df = Some [''Uniform'', ''Pitting'', ''Galvanic'', ''Crevice'',
                          ''Uniform'', ''Pitting'', ''Galvanic'']
        \<and> columns df = [''Time'', ''Sensor ID'', ''Value'', ''Status'', ''Type'']"
proof -
  obtain df where
    e: "generate_sensor_data clock_example rng_example ''corrosion'' 1 10 (Some 3) = Inr df"
    by (simp add: generate_defs units clock_example_def)
  have t: "Type df = Some [''Uniform'', ''Pitting'', ''Galvanic'', ''Crevice'',
                          ''Uniform'', ''Pitting'', ''Galvanic'']"
    using e by (auto simp add: generate_defs units example_defs upt_rec)
  from type_column [OF e] t e show ?thesis by simp
qed

subsection \<open>The current value of each sensor\<close>

text \<open>
  C8. When the two lines of a callback produce \<open>current_values\<close>, that frame has
  exactly one reading for each of the sensor ids 0 to 9, in this order, and the reading
  of sensor \<open>i\<close> is the last reading of the Series generated for \<open>i\<close>, which is the
  one with the largest timestamp of that Series.
\<close>

theorem current_values_last_reading:
  assumes cv: "current_values clock gens sensor_type = Inr cv"
  shows "Sensor_ID cv = map (\<lambda>i. Some (int i)) [0 ..< 10]
       \<and> length (Time cv) = 10 \<and> length (Value cv) = 10 \<and> length (Status cv) = 10
       \<and> (\<forall>i < 10. \<exists>df.
            generate_sensor_data (clock i) (gens i) sensor_type 1 10 (Some (int i)) = Inr df
            \<and> Time cv ! i = last (Time df)
            \<and> Time cv ! i = Max (set (Time df))
            \<and> Value cv ! i = last (Value df)
            \<and> Status cv ! i = last (Status df)
            \<and> map_option (\<lambda>ts. ts ! i) (Type cv) = map_option last (Type df))"
proof -
  let ?call = "\<lambda>i. generate_sensor_data (clock i) (gens i) sensor_type 1 10 (Some (int i))"
  let ?ids = "concat (map (\<lambda>i. replicate 7 (Some (int i))) [0 ..< 10])"
  let ?rows = "map (\<lambda>i. i * 7 + 6) [0 ..< 10]"
  from cv obtain frames df where
    fr: "collect (map ?call [0 ..< 10]) = Inr frames" and
    df: "pd_concat frames = Inr df" and
    cvd: "cv = groupby_last df"
    by (auto simp: current_values_def split: sum.splits)
  from collect_map_Inr [OF fr] have
    n: "length frames = 10" and calls: "\<forall>i < 10. ?call i = Inr (frames ! i)"
    by simp_all
  have shape: "length (Time (frames ! i)) = 7 \<and> length (Value (frames ! i)) = 7
       \<and> length (Status (frames ! i)) = 7
       \<and> Sensor_ID (frames ! i) = replicate 7 (Some (int i))
       \<and> (\<forall>ts. Type (frames ! i) = Some ts \<longrightarrow> length ts = 7)
       \<and> Max (set (Time (frames ! i))) = last (Time (frames ! i))" if "i < 10" for i
    using hourly_frame [of "clock i" "gens i" sensor_type "Some (int i)" "frames ! i"] calls that
    by simp
  have ne: "frames \<noteq> []" using n by auto
  have ids: "Sensor_ID df = ?ids"
  proof -
    have "map Sensor_ID frames = map (\<lambda>i. replicate 7 (Some (int i))) [0 ..< 10]"
      using n shape by (intro nth_equalityI) (simp_all del: upt_Suc)
    then show ?thesis using df ne by (auto simp: pd_concat_def)
  qed
  have T: "Time df = concat (map Time frames)" and V: "Value df = concat (map Value frames)"
    and S: "Status df = concat (map Status frames)"
    using df ne by (auto simp: pd_concat_def)
  have gT: "Time cv = map (nth (Time df)) ?rows" and gV: "Value cv = map (nth (Value df)) ?rows"
    and gS: "Status cv = map (nth (Status df)) ?rows"
    and gI: "Sensor_ID cv = map Some (map int [0 ..< 10])"
    and gY: "Type cv = map_option (\<lambda>ts. map (nth ts) ?rows) (Type df)"
    unfolding cvd groupby_last_def Let_def ids keys_eval rows_eval by simp_all
  have ids_cv: "Sensor_ID cv = map (\<lambda>i. Some (int i)) [0 ..< 10]"
    unfolding gI by (simp del: upt_Suc)
  have lens: "length (Time cv) = 10" "length (Value cv) = 10" "length (Status cv) = 10"
    unfolding gT gV gS by simp_all
  have row: "?rows ! i = i * 7 + 6" if "i < 10" for i
    using that by (simp del: upt_Suc)
  have rowT: "Time cv ! i = last (Time (frames ! i))" if "i < 10" for i
    using last_of_block [of frames Time i] shape n that row [OF that]
    unfolding gT T by (simp del: upt_Suc)
  have rowV: "Value cv ! i = last (Value (frames ! i))" if "i < 10" for i
    using last_of_block [of frames Value i] shape n that row [OF that]
    unfolding gV V by (simp del: upt_Suc)
  have rowS: "Status cv ! i = last (Status (frames ! i))" if "i < 10" for i
    using last_of_block [of frames Status i] shape n that row [OF that]
    unfolding gS S by (simp del: upt_Suc)
  have rowY: "map_option (\<lambda>ts. ts ! i) (Type cv) = map_option last (Type (frames ! i))"
    if i: "i < 10" for i
  proof (cases "sensor_type = ''corrosion''")
    case True
    have some: "\<exists>ts. Type (frames ! j) = Some ts \<and> length ts = 7" if "j < 10" for j
      using generate_type [of "clock j" "gens j" sensor_type 1 10 "Some (int j)" "frames ! j"]
        calls shape [OF that] that True by auto
    let ?col = "\<lambda>d. case Type d of Some ts \<Rightarrow> ts | None \<Rightarrow> replicate (length (Time d)) ''nan''"
    have "\<not> list_all (\<lambda>d. Type d = None) frames"
      using some [of 0] n ne by (cases frames) auto
    then have Y: "Type df = Some (concat (map ?col frames))"
      using df ne by (auto simp: pd_concat_def)
    have "\<forall>j < length frames. length (?col (frames ! j)) = 7"
      using some n by fastforce
    from last_of_block [OF this, of i] i n
    have "concat (map ?col frames) ! (i * 7 + 6) = last (?col (frames ! i))" by simp
    then show ?thesis
      using some [OF i] row [OF i] i unfolding gY Y by (auto simp del: upt_Suc)
  next
    case False
    have none: "Type (frames ! j) = None" if "j < 10" for j
      using generate_type [of "clock j" "gens j" sensor_type 1 10 "Some (int j)" "frames ! j"]
        calls that False by auto
    have "list_all (\<lambda>d. Type d = None) frames"
      using none n by (auto simp: list_all_length)
    then have "Type df = None" using df ne by (auto simp: pd_concat_def)
    then show ?thesis using none [OF i] unfolding gY by simp
  qed
  have each: "\<exists>d. ?call i = Inr d
            \<and> Time cv ! i = last (Time d)
            \<and> Time cv ! i = Max (set (Time d))
            \<and> Value cv ! i = last (Value d)
            \<and> Status cv ! i = last (Status d)
            \<and> map_option (\<lambda>ts. ts ! i) (Type cv) = map_option last (Type d)"
    if i: "i < 10" for i
    using calls shape [OF i] rowT [OF i] rowV [OF i] rowS [OF i] rowY [OF i] i
    by (intro exI [of _ "frames ! i"]) simp
  from ids_cv lens each show ?thesis by blast
qed

text \<open>
  C8 at the temperature callback with a ticking clock: ten readings, one for each
  sensor id, and the reading of sensor 9 carries the time of the tenth call.
\<close>

theorem current_values_last_reading_witness:
  "\<exists>cv. update_temperature_bar_chart ticking_clock same_rng = Inr cv
        \<and> Sensor_ID cv = [Some 0, Some 1, Some 2, Some 3, Some 4,
                           Some 5, Some 6, Some 7, Some 8, Some 9]
        \<and> length (Time cv) = 10
        \<and> Time cv ! 9 = ticking_clock 9"
proof -
  have call: "\<exists>df. generate_sensor_data (ticking_clock i) (same_rng i) ''temperature'' 1 10
                     (Some (int i)) = Inr df" if "i < 10" for i
    using that by (simp add: generate_defs units clock_example_def ticking_clock_def)
  obtain cv where e: "current_values ticking_clock same_rng ''temperature'' = Inr cv"
    using current_values_total [of ticking_clock same_rng "''temperature''"] call by blast
  note r = current_values_last_reading [OF e]
  from r have ids: "Sensor_ID cv = map (\<lambda>i. Some (int i)) [0 ..< 10]"
    and len: "length (Time cv) = 10"
    by simp_all
  have nine: "(9::nat) < 10" by simp
  from r nine have
    "\<exists>df. generate_sensor_data (ticking_clock 9) (same_rng 9) ''temperature'' 1 10
             (Some (int 9)) = Inr df
          \<and> Time cv ! 9 = last (Time df)"
    by blast
  then obtain df where
    g: "generate_sensor_data (ticking_clock 9) (same_rng 9) ''temperature'' 1 10
          (Some (int 9)) = Inr df" and
    t: "Time cv ! 9 = last (Time df)"
    by blast
  from hourly_frame [OF g] t have "Time cv ! 9 = ticking_clock 9" by simp
  with ids len e show ?thesis
    by (simp add: update_temperature_bar_chart_def upt_rec)
qed

subsection \<open>The sensor id and totality\<close>

text \<open>
  C9. Every entry of the column Sensor ID of a returned Series is the argument
  \<open>sensor_id\<close> itself, also when the argument is \<^verbatim>\<open>None\<close>.
\<close>

theorem sensor_id_replicated:
  assumes "generate_sensor_data now g sensor_type hours interval_minutes sensor_id = Inr df"
  shows "Sensor_ID df = replicate (length (Time df)) sensor_id
       \<and> (\<forall>x \<in> set (Sensor_ID df). x = sensor_id)"
  using generate_sensor_data_Inr [OF assms] by auto

text \<open>C9 at an acoustic Series without a sensor id: seven times \<^verbatim>\<open>None\<close>.\<close>

theorem sensor_id_replicated_witness:
  "\<exists>df. generate_sensor_data clock_example rng_example ''acoustic'' 1 10 None = Inr df
        \<and> Sensor_ID df = [None, None, None, None, None, None, None]"
proof -
  obtain df where
    e: "generate_sensor_data clock_example rng_example ''acoustic'' 1 10 None = Inr df"
    by (simp add: generate_defs units clock_example_def)
  have "length (Time df) = 7"
    using e by (auto simp add: generate_defs units clock_example_def)
  with sensor_id_replicated [OF e] e show ?thesis by (simp add: numeral_eq_Suc)
qed




end
